theory Spec2Isabelle
  imports Complex_Main "HOL-Library.Sublist"
begin

section \<open>Text\<close>

text \<open>
  A Python \<open>str\<close> is modelled as a \<open>string\<close>: a list of characters. HOL characters have
  eight bits, so the model covers text whose code points lie in 0..255 (Latin-1); on
  that range \<open>length\<close> is Python's \<open>len\<close>.
\<close>

text \<open>\<open>str.lower()\<close> on the code points 0..255: the letters A..Z and the capital
  letters 0xC0..0xDE (the multiplication sign 0xD7 apart) move up by 32.\<close>

definition lower_char :: "char \<Rightarrow> char" where
  "lower_char c =
     (let n = of_char c :: nat in
      if (65 \<le> n \<and> n \<le> 90) \<or> (192 \<le> n \<and> n \<le> 222 \<and> n \<noteq> 215)
      then char_of (n + 32) else c)"

definition lower :: "string \<Rightarrow> string" where
  "lower s = map lower_char s"

text \<open>\<open>p in t\<close> for strings: \<open>p\<close> occurs in \<open>t\<close> as a contiguous run.\<close>

fun str_in :: "string \<Rightarrow> string \<Rightarrow> bool" where
  "str_in p [] = (p = [])"
| "str_in p (c # cs) = (prefix p (c # cs) \<or> str_in p cs)"

text \<open>\<open>str(i)\<close> for an integer: decimal digits, with a minus sign when negative.\<close>

fun digits :: "nat \<Rightarrow> string" where
  "digits n =
     (if n < 10 then [char_of (48 + n)]
      else digits (n div 10) @ [char_of (48 + n mod 10)])"

declare digits.simps [simp del]

definition str_int :: "int \<Rightarrow> string" where
  "str_int i = (if i < 0 then CHR ''-'' # digits (nat (- i)) else digits (nat i))"

text \<open>\<open>s[:k]\<close>: a negative bound counts from the end of the string.\<close>

definition slice_to :: "string \<Rightarrow> int \<Rightarrow> string" where
  "slice_to s k =
     (let n = int (length s); j = (if k < 0 then max 0 (n + k) else k)
      in take (nat j) s)"

text \<open>\<open>s.replace(old, new)\<close>: the occurrences of \<open>old\<close> are found from the left and do
  not overlap; an empty \<open>old\<close> matches before every character and at the end.\<close>

function str_replace :: "string \<Rightarrow> string \<Rightarrow> string \<Rightarrow> string" where
  "str_replace old new [] = (if old = [] then new else [])"
| "str_replace old new (c # cs) =
     (if old = [] then new @ c # str_replace old new cs
      else if prefix old (c # cs) then new @ str_replace old new (drop (length old) (c # cs))
      else c # str_replace old new cs)"
  by pat_completeness auto
termination
  by (relation "measure (\<lambda>(old, new, s). length s)") auto

text \<open>\<open>s.split(sep)\<close> for a one-character separator: every separator cuts, so the
  result is never empty and may hold empty parts.\<close>

fun split_on :: "char \<Rightarrow> string \<Rightarrow> string list" where
  "split_on sep [] = [[]]"
| "split_on sep (c # cs) =
     (if c = sep then [] # split_on sep cs
      else (case split_on sep cs of
              [] \<Rightarrow> [[c]]
            | part # parts \<Rightarrow> (c # part) # parts))"

text \<open>\<open>s.split()\<close>: the maximal runs of characters that are not white space.\<close>

definition is_space :: "char \<Rightarrow> bool" where
  "is_space c =
     (let n = of_char c :: nat
      in (9 \<le> n \<and> n \<le> 13) \<or> (28 \<le> n \<and> n \<le> 32) \<or> n = 133 \<or> n = 160)"

fun split_ws_from :: "string \<Rightarrow> string \<Rightarrow> string list" where
  "split_ws_from w [] = (if w = [] then [] else [w])"
| "split_ws_from w (c # cs) =
     (if is_space c then (if w = [] then split_ws_from [] cs else w # split_ws_from [] cs)
      else split_ws_from (w @ [c]) cs)"

definition split_ws :: "string \<Rightarrow> string list" where
  "split_ws s = split_ws_from [] s"

section \<open>utils/validators.py\<close>

definition truncate_text :: "string \<Rightarrow> int \<Rightarrow> string \<Rightarrow> string" where
  "truncate_text text max_length sfx =
     (if int (length text) \<le> max_length then text
      else slice_to text (max_length - int (length sfx)) @ sfx)"

section \<open>models/state.py\<close>

type_synonym datetime = int  \<comment> \<open>microseconds since the epoch\<close>

datatype role = User | Assistant | System

record Message =
  msg_role :: role
  content :: string
  timestamp :: datetime
  msg_npc_id :: "string option"
  metadata :: "(string \<times> string) list"

record RelationshipState =
  rel_npc_id :: string
  score :: int
  interaction_count :: int
  last_sentiment :: "string option"

record ProgressState =
  current_module :: int
  completed_tasks :: "string list"
  current_task :: "string option"
  deliverables :: "(string \<times> bool) list"

record SessionState =
  session_id :: string
  user_id :: string
  simulation_id :: string
  conversation_history :: "Message list"
  active_npc :: "string option"
  relationships :: "string \<rightharpoonup> RelationshipState"
  progress :: ProgressState
  stuck_loop_count :: int
  last_hint_timestamp :: "datetime option"
  safety_flags :: "string list"
  created_at :: datetime
  updated_at :: datetime

text \<open>\<open>RelationshipState(npc_id=...)\<close> with the defaults of the other fields.\<close>

definition new_relationship :: "string \<Rightarrow> RelationshipState" where
  "new_relationship n =
     \<lparr>rel_npc_id = n, score = 0, interaction_count = 0, last_sentiment = None\<rparr>"

text \<open>\<open>SessionState(session_id=..., user_id=...)\<close> constructed at time \<open>now\<close>.\<close>

definition new_session :: "string \<Rightarrow> string \<Rightarrow> datetime \<Rightarrow> SessionState" where
  "new_session sid uid now =
     \<lparr>session_id = sid, user_id = uid, simulation_id = ''gucci_hrm_leadership'',
      conversation_history = [], active_npc = None, relationships = Map.empty,
      progress = \<lparr>current_module = 1, completed_tasks = [], current_task = None,
                  deliverables = []\<rparr>,
      stuck_loop_count = 0, last_hint_timestamp = None, safety_flags = [],
      created_at = now, updated_at = now\<rparr>"

text \<open>\<open>d.setdefault\<close>-style step shared by the two places that create a relationship
  lazily: \<open>if npc_id not in self.relationships: self.relationships[npc_id] = ...\<close>.\<close>

definition ensure_relationship :: "string \<Rightarrow> SessionState \<Rightarrow> SessionState" where
  "ensure_relationship n s =
     (case relationships s n of
        None \<Rightarrow> s\<lparr>relationships := (relationships s)(n \<mapsto> new_relationship n)\<rparr>
      | Some _ \<Rightarrow> s)"

definition update_relationship_score :: "string \<Rightarrow> int \<Rightarrow> SessionState \<Rightarrow> SessionState" where
  "update_relationship_score n delta s =
     (let s1 = ensure_relationship n s
      in case relationships s1 n of
           None \<Rightarrow> s1  \<comment> \<open>not reached: the key was just ensured\<close>
         | Some r \<Rightarrow>
             (let current = score r;
                  new_score = max (-10) (min 10 (current + delta))
              in s1\<lparr>relationships := (relationships s1)(n \<mapsto> r\<lparr>score := new_score\<rparr>)\<rparr>))"

text \<open>\<open>add_message\<close>; \<open>now\<close> is the clock reading taken for \<open>updated_at\<close>. A message
  counts as an NPC message when its \<open>npc_id\<close> is a non-empty string.\<close>

definition add_message :: "Message \<Rightarrow> datetime \<Rightarrow> SessionState \<Rightarrow> SessionState" where
  "add_message m now s =
     (let s1 = s\<lparr>conversation_history := conversation_history s @ [m], updated_at := now\<rparr>
      in case msg_npc_id m of
           None \<Rightarrow> s1
         | Some n \<Rightarrow>
             (if n \<noteq> [] then
                (case relationships s1 n of
                   None \<Rightarrow> s1
                 | Some r \<Rightarrow> s1\<lparr>relationships :=
                     (relationships s1)(n \<mapsto> r\<lparr>interaction_count := interaction_count r + 1\<rparr>)\<rparr>)
              else s1))"

text \<open>\<open>get_recent_history(n)\<close> is \<open>conversation_history[-n:]\<close>; for \<open>n = 0\<close> Python's
  \<open>[-0:]\<close> is the whole list.\<close>

definition get_recent_history :: "nat \<Rightarrow> SessionState \<Rightarrow> Message list" where
  "get_recent_history n s =
     (let h = conversation_history s
      in if n = 0 then h else drop (length h - n) h)"

section \<open>agents/npc_agent.py\<close>

text \<open>
  The LLM client is a parameter of the agent. \<open>None\<close> is the agent built without an
  API key (mock responses). A client maps the system prompt and the message list to
  the reply text, or to \<open>None\<close> when the API call raises.
\<close>

type_synonym llm_message = "string \<times> string"  \<comment> \<open>role, content\<close>

type_synonym llm_client = "string \<Rightarrow> llm_message list \<Rightarrow> string option"

record NPCAgent =
  persona_id :: string
  persona_name :: string
  persona_role :: string
  persona_system_prompt :: string
  client :: "llm_client option"

abbreviation NL :: char where "NL \<equiv> CHR 0x0A"

abbreviation APOS :: char where "APOS \<equiv> CHR 0x27"

definition build_system_prompt :: "NPCAgent \<Rightarrow> SessionState \<Rightarrow> string" where
  "build_system_prompt agent s =
     (let base_prompt = persona_system_prompt agent;
          m = current_module (progress s);
          c0 = [NL, NL] @ ''## Current Context'' @ [NL] @ ''The user is in Module ''
                 @ str_int m @ ''.'';
          c1 = (if m = 1 then c0 @ [NL] @ ''Focus: Defining Group DNA and Competency Framework.''
                else if m = 2 then c0 @ [NL] @ ''Focus: Designing 360'' @ [CHR 0xB0]
                                      @ '' feedback and coaching program.''
                else if m = 3 then c0 @ [NL] @ ''Focus: Cascading and measuring adoption.''
                else c0);
          c2 = (case relationships s (persona_id agent) of
                  None \<Rightarrow> c1
                | Some r \<Rightarrow>
                    (if score r > 5 then
                       c1 @ [NL, NL] @ ''Relationship: Warm and collaborative. Share more stories.''
                     else if score r < - 2 then
                       c1 @ [NL, NL] @ ''Relationship: Strained. Be more formal but still helpful.''
                     else c1));
          c3 = (case current_task (progress s) of
                  None \<Rightarrow> c2
                | Some t \<Rightarrow>
                    (if t \<noteq> [] then c2 @ [NL, NL] @ ''Current task user is working on: '' @ t
                     else c2))
      in base_prompt @ c3)"

definition role_name :: "role \<Rightarrow> string" where
  "role_name r = (case r of User \<Rightarrow> ''user'' | Assistant \<Rightarrow> ''assistant'' | System \<Rightarrow> ''system'')"

definition build_message_history :: "SessionState \<Rightarrow> string \<Rightarrow> llm_message list" where
  "build_message_history s user_message =
     (let recent_history = get_recent_history 10 s;
          messages = map (\<lambda>m. (role_name (msg_role m), content m))
                       (filter (\<lambda>m. msg_role m \<in> {User, Assistant}) recent_history)
      in messages @ [(''user'', user_message)])"

definition generate_mock_response :: "NPCAgent \<Rightarrow> string \<Rightarrow> string" where
  "generate_mock_response agent user_message =
     ''[MOCK RESPONSE from '' @ persona_name agent @ ''] I understand you'' @ [APOS]
       @ ''re asking about: '' @ [APOS] @ slice_to user_message 50 @ ''...'' @ [APOS]
       @ ''. This is a mock response because ANTHROPIC_API_KEY is not configured. ''
       @ ''Please add your API key to .env file to get real AI responses.''"

definition generate_fallback_response :: string where
  "generate_fallback_response =
     ''I apologize, I'' @ [APOS] @ ''m having trouble processing that right now. ''
       @ ''Could you rephrase your question about the leadership development program?''"

text \<open>\<open>_call_llm\<close>. The message list it is given always ends with the current user
  message, which is what \<open>messages[-1]["content"]\<close> reads.\<close>

definition call_llm :: "NPCAgent \<Rightarrow> string \<Rightarrow> llm_message list \<Rightarrow> string" where
  "call_llm agent system_prompt messages =
     (case client agent of
        None \<Rightarrow> generate_mock_response agent (snd (last messages))
      | Some api \<Rightarrow>
          (case api system_prompt messages of
             Some reply \<Rightarrow> reply
           | None \<Rightarrow> generate_fallback_response))"

definition jailbreak_patterns :: "string list" where
  "jailbreak_patterns =
     [''ignore previous instructions'', ''ignore all previous'', ''you are now'',
      ''forget your role'', ''disregard your'', ''new instructions:'', ''system:'',
      ''override'']"

text \<open>\<open>_safety_check\<close>. The loop over the patterns appends the flag once, at the first
  pattern found, and stops.\<close>

definition safety_check :: "string \<Rightarrow> string list" where
  "safety_check user_message =
     (let flags = (if length user_message > 2000 then [''too_long''] else []);
          user_lower = lower user_message
      in if list_ex (\<lambda>pattern. str_in pattern user_lower) jailbreak_patterns
         then flags @ [''jailbreak''] else flags)"

definition generate_safety_response :: "NPCAgent \<Rightarrow> string list \<Rightarrow> string" where
  "generate_safety_response agent flags =
     (if ''jailbreak'' \<in> set flags then
        ''I appreciate your creativity, but I need to stay in character as ''
          @ persona_name agent @ '', '' @ persona_role agent @ ''. Let'' @ [APOS]
          @ ''s focus on the leadership ''
          @ ''development challenge at hand. What aspect would you like to explore?''
      else if ''too_long'' \<in> set flags then
        ''That'' @ [APOS] @ ''s quite a detailed message! Could you break it down into ''
          @ ''smaller questions? I want to make sure I address each point properly.''
      else
        ''I'' @ [APOS] @ ''m here to help with the Gucci leadership development simulation. ''
          @ ''What would you like to discuss?'')"

definition positive_keywords :: "string list" where
  "positive_keywords =
     [''excellent'', ''great'', ''exactly'', ''perfect'', ''wonderful'', ''yes'', ''good'']"

definition negative_keywords :: "string list" where
  "negative_keywords = [''concern'', ''however'', ''but'', ''careful'', ''issue'', ''problem'']"

text \<open>\<open>sum(1 for kw in keywords if kw in response_lower)\<close>: one for each keyword of the
  list that is found.\<close>

definition analyze_sentiment :: "string \<Rightarrow> string" where
  "analyze_sentiment response_text =
     (let response_lower = lower response_text;
          pos_count = length (filter (\<lambda>kw. str_in kw response_lower) positive_keywords);
          neg_count = length (filter (\<lambda>kw. str_in kw response_lower) negative_keywords)
      in if pos_count > neg_count then ''positive''
         else if neg_count > pos_count then ''negative''
         else ''neutral'')"

definition update_relationship :: "NPCAgent \<Rightarrow> SessionState \<Rightarrow> string \<Rightarrow> SessionState" where
  "update_relationship agent s sentiment =
     (let n = persona_id agent;
          s1 = ensure_relationship n s;
          delta = (if sentiment = ''positive'' then 1
                   else if sentiment = ''negative'' then - 1 else 0);
          s2 = update_relationship_score n delta s1
      in case relationships s2 n of
           None \<Rightarrow> s2  \<comment> \<open>not reached: the key exists after the update\<close>
         | Some r \<Rightarrow>
             s2\<lparr>relationships := (relationships s2)(n \<mapsto> r\<lparr>last_sentiment := Some sentiment\<rparr>)\<rparr>)"

text \<open>
  \<open>process_message\<close>. The call reads the clock four times on its normal path (the two
  \<open>Message\<close> constructors, then the two \<open>add_message\<close> calls); \<open>clock k\<close> is the
  \<open>k\<close>-th reading. The result is the reply, the session state and the safety flags.
\<close>

definition process_message ::
  "NPCAgent \<Rightarrow> (nat \<Rightarrow> datetime) \<Rightarrow> string \<Rightarrow> SessionState
     \<Rightarrow> string \<times> SessionState \<times> string list" where
  "process_message agent clock user_message s =
     (let flags = safety_check user_message
      in if ''jailbreak'' \<in> set flags \<or> ''profanity'' \<in> set flags then
           (generate_safety_response agent flags, s, flags)
         else
           (let system_prompt = build_system_prompt agent s;
                messages = build_message_history s user_message;
                response_text = call_llm agent system_prompt messages;
                sentiment = analyze_sentiment response_text;
                s1 = update_relationship agent s sentiment;
                user_msg = \<lparr>msg_role = User, content = user_message, timestamp = clock 0,
                            msg_npc_id = None, metadata = []\<rparr>;
                assistant_msg = \<lparr>msg_role = Assistant, content = response_text,
                                 timestamp = clock 1, msg_npc_id = Some (persona_id agent),
                                 metadata = [(''sentiment'', sentiment)]\<rparr>;
                s2 = add_message user_msg (clock 2) s1;
                s3 = add_message assistant_msg (clock 3) s2
            in (response_text, s3\<lparr>active_npc := Some (persona_id agent)\<rparr>, flags)))"

section \<open>models/user_profile.py\<close>

datatype complexity = Simple | Moderate | Advanced

datatype age_range_t = Age_8_12 | Age_13_15 | Age_16_18 | Age_19_25 | Age_26_plus

datatype reading_level_t = Elementary | Middle | High | College | Professional

datatype encouragement_t = EncMinimal | EncModerate | EncHigh

datatype explanation_t = Brief | Standard | Detailed

datatype learning_style_t = Visual | Auditory | Reading | Kinesthetic | Mixed

datatype pace_t = Slow | ModeratePace | Fast

text \<open>The two \<open>float\<close> fields take no part in any computation modelled here; they are
  kept as numbers.\<close>

record AccessibilityNeeds =
  visual_impairment :: bool
  screen_reader_enabled :: bool
  high_contrast_mode :: bool
  font_size_multiplier :: real
  hearing_impairment :: bool
  captions_required :: bool
  sign_language_preference :: "string option"
  motor_impairment :: bool
  voice_input_preferred :: bool
  keyboard_only_navigation :: bool
  cognitive_support_needed :: bool
  simple_language_preferred :: bool
  extra_processing_time :: bool
  text_to_speech_enabled :: bool
  speech_to_text_enabled :: bool
  speech_rate :: real
  voice_preference :: string

record AgeGroup =
  age_range :: age_range_t
  reading_level :: reading_level_t
  vocabulary_complexity :: complexity
  profanity_filter :: bool
  sensitive_content_filter :: bool
  gamification_enabled :: bool
  encouragement_level :: encouragement_t
  explanation_depth :: explanation_t

record UserProfile =
  profile_user_id :: string
  email :: "string option"
  name :: "string option"
  age :: "int option"
  age_group :: AgeGroup
  accessibility :: AccessibilityNeeds
  preferred_language :: string
  timezone :: string
  learning_style :: learning_style_t
  pace_preference :: pace_t
  data_retention_days :: int
  analytics_enabled :: bool
  profile_created_at :: datetime
  last_active :: datetime






definition needs_simplified_language :: "UserProfile \<Rightarrow> bool" where
  "needs_simplified_language p =
     (simple_language_preferred (accessibility p) \<or>
      cognitive_support_needed (accessibility p) \<or>
      (case age p of None \<Rightarrow> False | Some a \<Rightarrow> a < 16))"

section \<open>services/security_service.py\<close>

record TokenData =
  token_user_id :: string
  token_session_id :: string
  token_exp :: datetime

text \<open>
  \<open>jwt.decode\<close> belongs to a library; its result is a parameter of the service. A
  decoded payload gives what \<open>payload.get\<close> returns for the three keys (\<open>None\<close> when the
  key is absent or its value has the wrong type).
\<close>

datatype jwt_outcome =
    Decoded "string option" "string option" "datetime option"
  | ExpiredSignature
  | InvalidToken

datatype py_exception = ValidationError | TypeError

record SecurityService =
  max_requests_per_minute :: int
  jwt_available :: bool
  jwt_decode :: "string \<Rightarrow> jwt_outcome"
  rate_limit_store :: "string \<rightharpoonup> datetime list"

definition one_minute :: int where
  "one_minute = 60000000"

definition one_hour :: int where
  "one_hour = 60 * one_minute"

text \<open>\<open>verify_token\<close>; \<open>now\<close> is the reading of \<open>datetime.utcnow()\<close>. \<open>Inl\<close> is an exception
  that leaves the function, \<open>Inr None\<close> the return value \<open>None\<close>.\<close>

definition verify_token ::
  "SecurityService \<Rightarrow> datetime \<Rightarrow> string \<Rightarrow> py_exception + TokenData option" where
  "verify_token svc now token =
     (if \<not> jwt_available svc then
        (let parts = split_on CHR '':'' token
         in if length parts \<ge> 3 then
              Inr (Some \<lparr>token_user_id = parts ! 0, token_session_id = parts ! 1,
                          token_exp = now + one_hour\<rparr>)
            else Inr None)
      else
        (case jwt_decode svc token of
           Decoded uid sid expiry \<Rightarrow>
             (case expiry of
                None \<Rightarrow> Inl TypeError
              | Some e \<Rightarrow>
                  (case (uid, sid) of
                     (Some u, Some i) \<Rightarrow>
                       Inr (Some \<lparr>token_user_id = u, token_session_id = i, token_exp = e\<rparr>)
                   | _ \<Rightarrow> Inl ValidationError))
         | ExpiredSignature \<Rightarrow> Inr None
         | InvalidToken \<Rightarrow> Inr None))"

text \<open>\<open>check_rate_limit\<close>; \<open>now\<close> is the reading of \<open>datetime.utcnow()\<close>. The result is
  the answer and the service with its updated store.\<close>

definition check_rate_limit ::
  "SecurityService \<Rightarrow> datetime \<Rightarrow> string \<Rightarrow> string \<Rightarrow> int option
     \<Rightarrow> bool \<times> SecurityService" where
  "check_rate_limit svc now uid endpoint limit =
     (let limit_per_minute = (case limit of None \<Rightarrow> max_requests_per_minute svc | Some l \<Rightarrow> l);
          key = uid @ ''_'' @ endpoint;
          recorded = (case rate_limit_store svc key of None \<Rightarrow> [] | Some ts \<Rightarrow> ts);
          kept = filter (\<lambda>req_time. now - req_time < one_minute) recorded
      in if int (length kept) \<ge> limit_per_minute then
           (False, svc\<lparr>rate_limit_store := (rate_limit_store svc)(key \<mapsto> kept)\<rparr>)
         else
           (True, svc\<lparr>rate_limit_store := (rate_limit_store svc)(key \<mapsto> kept @ [now])\<rparr>))"

text \<open>Successive calls for one key, as in the rate-limit loop of \<open>test_system.py\<close>; the
  list holds the clock reading of each call.\<close>

fun check_rate_limit_calls ::
  "SecurityService \<Rightarrow> string \<Rightarrow> string \<Rightarrow> int option \<Rightarrow> datetime list
     \<Rightarrow> bool list \<times> SecurityService" where
  "check_rate_limit_calls svc uid endpoint limit [] = ([], svc)"
| "check_rate_limit_calls svc uid endpoint limit (now # later) =
     (let (allowed, svc1) = check_rate_limit svc now uid endpoint limit;
          (results, svc2) = check_rate_limit_calls svc1 uid endpoint limit later
      in (allowed # results, svc2))"

section \<open>api/routes.py\<close>

datatype auth_detail = MissingAuthorizationHeader | AuthenticationFailed

datatype http_error = HTTPException int auth_detail

text \<open>\<open>verify_session\<close>. Whatever is raised inside the \<open>try\<close> block, the
  \<open>HTTPException\<close> for a token that does not verify included, is caught by
  \<open>except Exception\<close> and raised again with status 401.\<close>

definition verify_session ::
  "SecurityService \<Rightarrow> datetime \<Rightarrow> string option \<Rightarrow> http_error + string" where
  "verify_session svc now authorization =
     (case authorization of
        None \<Rightarrow> Inl (HTTPException 401 MissingAuthorizationHeader)
      | Some header \<Rightarrow>
          (if header = [] then Inl (HTTPException 401 MissingAuthorizationHeader)
           else
             (let token = str_replace ''Bearer '' [] header
              in case verify_token svc now token of
                   Inl _ \<Rightarrow> Inl (HTTPException 401 AuthenticationFailed)
                 | Inr None \<Rightarrow> Inl (HTTPException 401 AuthenticationFailed)
                 | Inr (Some token_data) \<Rightarrow> Inr (token_session_id token_data))))"

section \<open>agents/director_agent.py\<close>

text \<open>\<open>module_keywords.get(current_module, [])\<close>.\<close>

definition module_keywords :: "int \<Rightarrow> string list" where
  "module_keywords m =
     (if m = 1 then
        [''competency'', ''framework'', ''vision'', ''entrepreneurship'', ''passion'',
         ''trust'', ''dna'', ''brand'', ''talent'', ''leadership'', ''pillars'']
      else if m = 2 then
        [''360'', ''feedback'', ''coaching'', ''assessment'', ''rater'', ''survey'',
         ''questionnaire'', ''development'', ''program'', ''degree'']
      else if m = 3 then
        [''rollout'', ''cascade'', ''training'', ''implementation'', ''regional'',
         ''adoption'', ''measurement'', ''kpi'', ''train'']
      else [])"

definition off_topic_patterns :: "string list" where
  "off_topic_patterns =
     [''favorite color'', ''weather'', ''sports'', ''movie'', ''food'',
      ''personal life'', ''weekend'', ''vacation'', ''hobby'', ''lunch'',
      ''dinner'', ''breakfast'', ''pet'', ''family'']"

definition is_off_topic :: "string \<Rightarrow> SessionState \<Rightarrow> bool" where
  "is_off_topic user_message s =
     (let keywords = module_keywords (current_module (progress s));
          message_lower = lower user_message;
          matches = length (filter (\<lambda>kw. str_in kw message_lower) keywords)
      in if list_ex (\<lambda>pattern. str_in pattern message_lower) off_topic_patterns then True
         else if matches = 0 \<and> length (split_ws user_message) > 10 then True
         else False)"

section \<open>services/session_manager.py\<close>

text \<open>
  A store holds the JSON text of each session under its key, in the order in which the
  keys are listed. Reading a session back, \<open>SessionState(**json.loads(...))\<close>, is the
  parameter \<open>parse\<close>; it gives \<open>None\<close> when it raises.
\<close>

record SessionManager =
  redis_enabled :: bool
  redis_store :: "(string \<times> string) list"
  memory_store :: "(string \<times> string) list"

definition session_key_id :: "string \<Rightarrow> string" where
  "session_key_id key = str_replace ''session:'' [] key"

text \<open>The loop of the networked branch when a user id is given; \<open>None\<close> is an exception
  leaving the loop.\<close>

fun scan_user_sessions ::
  "(string \<Rightarrow> SessionState option) \<Rightarrow> string \<Rightarrow> (string \<times> string) list
     \<Rightarrow> string list option" where
  "scan_user_sessions parse uid [] = Some []"
| "scan_user_sessions parse uid ((key, session_json) # rest) =
     (if session_json \<noteq> [] then
        (case parse session_json of
           None \<Rightarrow> None
         | Some session \<Rightarrow>
             (case scan_user_sessions parse uid rest of
                None \<Rightarrow> None
              | Some found \<Rightarrow>
                  Some (if user_id session = uid then session_key_id key # found else found)))
      else scan_user_sessions parse uid rest)"

definition get_all_sessions ::
  "(string \<Rightarrow> SessionState option) \<Rightarrow> SessionManager \<Rightarrow> string option \<Rightarrow> string list" where
  "get_all_sessions parse mgr uid =
     (if redis_enabled mgr then
        (let scanned = filter (\<lambda>(key, _). prefix ''session:'' key) (redis_store mgr)
         in case uid of
              None \<Rightarrow> map (\<lambda>(key, _). session_key_id key) scanned
            | Some u \<Rightarrow>
                (if u \<noteq> [] then
                   (case scan_user_sessions parse u scanned of
                      None \<Rightarrow> []
                    | Some found \<Rightarrow> found)
                 else map (\<lambda>(key, _). session_key_id key) scanned))
      else map (\<lambda>(key, _). session_key_id key) (memory_store mgr))"

section \<open>Vocabulary of the properties\<close>

text \<open>The score a session holds for an NPC; 0, the neutral baseline, while no
  relationship has been created.\<close>

definition cur_score :: "string \<Rightarrow> SessionState \<Rightarrow> int" where
  "cur_score n s = (case relationships s n of None \<Rightarrow> 0 | Some r \<Rightarrow> score r)"

text \<open>The field constraint \<open>ge=-10, le=10\<close> on every stored relationship.\<close>

definition scores_in_range :: "SessionState \<Rightarrow> bool" where
  "scores_in_range s = (\<forall>r \<in> ran (relationships s). - 10 \<le> score r \<and> score r \<le> 10)"

text \<open>The specification's reading of the sentiment check, which counts occurrences:
  the number of places of the text at which a cue word starts, summed over the cue
  words of a list.\<close>

fun spec_occurrences :: "string \<Rightarrow> string \<Rightarrow> nat" where
  "spec_occurrences kw [] = 0"
| "spec_occurrences kw (c # cs) =
     (if prefix kw (c # cs) then 1 else 0) + spec_occurrences kw cs"

definition spec_occurrence_count :: "string list \<Rightarrow> string \<Rightarrow> nat" where
  "spec_occurrence_count kws text = sum_list (map (\<lambda>kw. spec_occurrences kw text) kws)"

definition spec_sentiment_by_occurrences :: "string \<Rightarrow> string" where
  "spec_sentiment_by_occurrences response_text =
     (let response_lower = lower response_text;
          pos = spec_occurrence_count positive_keywords response_lower;
          neg = spec_occurrence_count negative_keywords response_lower
      in if pos > neg then ''positive'' else if neg > pos then ''negative'' else ''neutral'')"


text \<open>An agent for the persona \<open>chro\<close> built without an API key, used as a concrete
  input.\<close>

definition chro_agent :: NPCAgent where
  "chro_agent =
     \<lparr>persona_id = ''chro'', persona_name = ''Dr. Elena Marchetti'',
      persona_role = ''Chief Human Resources Officer'',
      persona_system_prompt = ''# PERSONA: Gucci Group CHRO - Dr. Elena Marchetti'',
      client = None\<rparr>"


text \<open>A service as \<open>SecurityService()\<close> builds it, with an empty rate-limit store, in
  the mode without the JWT library; used as a concrete input.\<close>

definition plain_service :: SecurityService where
  "plain_service =
     \<lparr>max_requests_per_minute = 60, jwt_available = False,
      jwt_decode = (\<lambda>_. InvalidToken), rate_limit_store = Map.empty\<rparr>"

section \<open>Properties\<close>

subsection \<open>Truncation\<close>

text \<open>
  Claim C10. For every text and every \<open>max_length\<close> at least as long as the suffix: a
  text of length at most \<open>max_length\<close> is returned unchanged; a longer one gives a
  string of length exactly \<open>max_length\<close> that ends with the suffix and starts with the
  first \<open>max_length - len(suffix)\<close> characters of the text.
\<close>

theorem truncate_text_spec:
  assumes "int (length sfx) \<le> max_length"
  shows "(int (length text) \<le> max_length \<longrightarrow> truncate_text text max_length sfx = text) \<and>
         (max_length < int (length text) \<longrightarrow>
            truncate_text text max_length sfx
              = take (nat (max_length - int (length sfx))) text @ sfx \<and>
            int (length (truncate_text text max_length sfx)) = max_length \<and>
            suffix sfx (truncate_text text max_length sfx))"
  using assms by (auto simp: truncate_text_def slice_to_def Let_def suffix_def)

theorem truncate_text_spec_witness:
  "int (length ''...'') \<le> 8 \<and> truncate_text ''hi'' 8 ''...'' = ''hi'' \<and>
   truncate_text ''hello world'' 8 ''...'' = ''hello...'' \<and>
   int (length (truncate_text ''hello world'' 8 ''...'')) = 8"
  using truncate_text_spec [of "''...''" 8 "''hi''"]
        truncate_text_spec [of "''...''" 8 "''hello world''"]
  by simp

subsection \<open>Relationship score\<close>

lemma relationships_update_relationship_score:
  "relationships (update_relationship_score n d s) =
     (relationships s)(n \<mapsto>
        (case relationships s n of None \<Rightarrow> new_relationship n | Some r \<Rightarrow> r)
          \<lparr>score := max (- 10) (min 10
             ((case relationships s n of None \<Rightarrow> 0 | Some r \<Rightarrow> score r) + d))\<rparr>)"
  by (auto simp: update_relationship_score_def ensure_relationship_def Let_def
        new_relationship_def split: option.splits)

lemma relationships_update_relationship:
  "relationships (update_relationship agent s sentiment) =
     (relationships s)(persona_id agent \<mapsto>
        (case relationships s (persona_id agent) of
           None \<Rightarrow> new_relationship (persona_id agent) | Some r \<Rightarrow> r)
          \<lparr>score := max (- 10) (min 10
             ((case relationships s (persona_id agent) of None \<Rightarrow> 0 | Some r \<Rightarrow> score r)
               + (if sentiment = ''positive'' then 1
                  else if sentiment = ''negative'' then - 1 else 0))),
           last_sentiment := Some sentiment\<rparr>)"
  by (auto simp: update_relationship_def relationships_update_relationship_score
        ensure_relationship_def Let_def new_relationship_def split: option.splits)

lemma cur_score_step:
  "cur_score n (update_relationship_score n d s) = max (- 10) (min 10 (cur_score n s + d))"
  by (simp add: cur_score_def relationships_update_relationship_score)

lemma cur_score_sentiment_step:
  "cur_score (persona_id agent) (update_relationship agent s sentiment) =
     max (- 10) (min 10 (cur_score (persona_id agent) s
        + (if sentiment = ''positive'' then 1 else if sentiment = ''negative'' then - 1 else 0)))"
  by (simp add: cur_score_def relationships_update_relationship)

lemma scores_in_range_step:
  "scores_in_range s \<Longrightarrow> scores_in_range (update_relationship agent s sentiment)"
  unfolding scores_in_range_def relationships_update_relationship
  by (auto simp: ran_def split: if_splits)

lemma scores_in_range_fold:
  "scores_in_range s \<Longrightarrow>
   scores_in_range (fold (\<lambda>sentiment st. update_relationship agent st sentiment) sentiments s)"
  by (induction sentiments arbitrary: s) (simp_all add: scores_in_range_step)

lemma cur_score_up:
  "cur_score n s = 0 \<Longrightarrow>
   cur_score n ((update_relationship_score n 1 ^^ k) s) = min 10 (int k)"
  by (induction k) (simp_all add: cur_score_step)

lemma cur_score_down:
  "cur_score n s = 0 \<Longrightarrow>
   cur_score n ((update_relationship_score n (- 1) ^^ k) s) = max (- 10) (- int k)"
  by (induction k) (simp_all add: cur_score_step)

lemma fold_replicate_funpow: "fold f (replicate k x) s = (f x ^^ k) s"
  by (induction k arbitrary: s) (simp_all add: funpow_swap1)

lemma cur_score_positive_turns:
  "cur_score (persona_id agent) s = 0 \<Longrightarrow>
   cur_score (persona_id agent)
     (((\<lambda>st. update_relationship agent st ''positive'') ^^ k) s) = min 10 (int k)"
  by (induction k) (simp_all add: cur_score_sentiment_step)

lemma cur_score_negative_turns:
  "cur_score (persona_id agent) s = 0 \<Longrightarrow>
   cur_score (persona_id agent)
     (((\<lambda>st. update_relationship agent st ''negative'') ^^ k) s) = max (- 10) (- int k)"
  by (induction k) (simp_all add: cur_score_sentiment_step)

lemma cur_score_stored:
  "cur_score n s = c \<Longrightarrow> c \<noteq> 0 \<Longrightarrow> map_option score (relationships s n) = Some c"
  by (auto simp: cur_score_def split: option.splits)

text \<open>
  Claim C1. The relationship score stays an integer in [-10, 10]: a sequence of
  sentiment-driven updates keeps every stored score in the range, and one call of
  \<open>update_relationship_score\<close> leaves the score of its NPC in the range whatever the
  delta. From a fresh relationship (score 0, or none yet), 15 updates with delta +1
  end at exactly 10 and 15 updates with delta -1 at exactly -10, called directly or
  through 15 positive (negative) turns of the agent.
\<close>

theorem relationship_score_clamped:
  "(scores_in_range s \<longrightarrow>
      scores_in_range (fold (\<lambda>sentiment st. update_relationship agent st sentiment) sentiments s)) \<and>
   (- 10 \<le> cur_score n (update_relationship_score n delta s) \<and>
      cur_score n (update_relationship_score n delta s) \<le> 10) \<and>
   (cur_score n s = 0 \<longrightarrow>
      map_option score (relationships ((update_relationship_score n 1 ^^ 15) s) n) = Some 10 \<and>
      map_option score (relationships ((update_relationship_score n (- 1) ^^ 15) s) n)
        = Some (- 10)) \<and>
   (cur_score (persona_id agent) s = 0 \<longrightarrow>
      map_option score (relationships
        (fold (\<lambda>sentiment st. update_relationship agent st sentiment)
           (replicate 15 ''positive'') s) (persona_id agent)) = Some 10 \<and>
      map_option score (relationships
        (fold (\<lambda>sentiment st. update_relationship agent st sentiment)
           (replicate 15 ''negative'') s) (persona_id agent)) = Some (- 10))"
proof -
  have a: "scores_in_range s \<longrightarrow>
      scores_in_range (fold (\<lambda>sentiment st. update_relationship agent st sentiment) sentiments s)"
    by (simp add: scores_in_range_fold)
  have b: "- 10 \<le> cur_score n (update_relationship_score n delta s) \<and>
      cur_score n (update_relationship_score n delta s) \<le> 10"
    by (simp add: cur_score_step)
  have c: "map_option score (relationships ((update_relationship_score n 1 ^^ 15) s) n) = Some 10 \<and>
      map_option score (relationships ((update_relationship_score n (- 1) ^^ 15) s) n)
        = Some (- 10)" if "cur_score n s = 0"
    using cur_score_up [OF that, of 15] cur_score_down [OF that, of 15]
    by (simp add: cur_score_stored)
  have d: "map_option score (relationships
        (fold (\<lambda>sentiment st. update_relationship agent st sentiment)
           (replicate 15 ''positive'') s) (persona_id agent)) = Some 10 \<and>
      map_option score (relationships
        (fold (\<lambda>sentiment st. update_relationship agent st sentiment)
           (replicate 15 ''negative'') s) (persona_id agent)) = Some (- 10)"
    if "cur_score (persona_id agent) s = 0"
    using cur_score_positive_turns [OF that, of 15] cur_score_negative_turns [OF that, of 15]
    by (simp add: fold_replicate_funpow cur_score_stored)
  from a b c d show ?thesis by blast
qed

theorem relationship_score_clamped_witness:
  "scores_in_range (new_session ''s1'' ''u1'' 0) \<and>
   cur_score ''chro'' (new_session ''s1'' ''u1'' 0) = 0 \<and>
   scores_in_range
     (fold (\<lambda>sentiment st. update_relationship chro_agent st sentiment)
        [''positive'', ''neutral'', ''negative''] (new_session ''s1'' ''u1'' 0)) \<and>
   map_option score (relationships
     ((update_relationship_score ''chro'' 1 ^^ 15) (new_session ''s1'' ''u1'' 0)) ''chro'')
     = Some 10 \<and>
   map_option score (relationships
     (fold (\<lambda>sentiment st. update_relationship chro_agent st sentiment)
        (replicate 15 ''negative'') (new_session ''s1'' ''u1'' 0)) ''chro'') = Some (- 10)"
  using relationship_score_clamped [of "new_session ''s1'' ''u1'' 0" chro_agent
      "[''positive'', ''neutral'', ''negative'']" "''chro''" 1]
  by (simp add: scores_in_range_def cur_score_def new_session_def chro_agent_def)

subsection \<open>Adapted complexity\<close>





subsection \<open>Sentiment of a reply\<close>

text \<open>
  Claim C4, as stated, fails: with three occurrences of one positive cue word against
  one occurrence each of two negative cue words the occurrence counts are 3 and 2, yet
  the reply is classified \<open>negative\<close>, since each cue word counts once however often it
  appears.
\<close>

theorem sentiment_occurrences_counterexample:
  "analyze_sentiment ''Good, good, good - but however'' = ''negative'' \<and>
   spec_occurrence_count positive_keywords (lower ''Good, good, good - but however'') = 3 \<and>
   spec_occurrence_count negative_keywords (lower ''Good, good, good - but however'') = 2 \<and>
   spec_sentiment_by_occurrences ''Good, good, good - but however'' = ''positive''"
  by code_simp

text \<open>
  Claim C4, amended. The classification counts how many of the 7 positive and how many
  of the 6 negative cue words are found at least once in the lower-cased text, each
  cue word counting once, and returns \<open>positive\<close> exactly when the first number exceeds
  the second, \<open>negative\<close> exactly when the second exceeds the first, and \<open>neutral\<close>
  exactly when they are equal.
\<close>

theorem analyze_sentiment_amended:
  "(let found_pos = card {kw \<in> set positive_keywords. str_in kw (lower response_text)};
        found_neg = card {kw \<in> set negative_keywords. str_in kw (lower response_text)}
    in (analyze_sentiment response_text = ''positive'' \<longleftrightarrow> found_pos > found_neg) \<and>
       (analyze_sentiment response_text = ''negative'' \<longleftrightarrow> found_neg > found_pos) \<and>
       (analyze_sentiment response_text = ''neutral'' \<longleftrightarrow> found_pos = found_neg)) \<and>
   positive_keywords =
     [''excellent'', ''great'', ''exactly'', ''perfect'', ''wonderful'', ''yes'', ''good''] \<and>
   negative_keywords = [''concern'', ''however'', ''but'', ''careful'', ''issue'', ''problem'']"
proof -
  have dp: "distinct positive_keywords" by (simp add: positive_keywords_def)
  have dn: "distinct negative_keywords" by (simp add: negative_keywords_def)
  have p: "length (filter (\<lambda>kw. str_in kw (lower response_text)) positive_keywords)
             = card {kw \<in> set positive_keywords. str_in kw (lower response_text)}"
    using distinct_length_filter [OF dp, of "\<lambda>kw. str_in kw (lower response_text)"]
    by (simp add: Int_def conj_commute)
  have n: "length (filter (\<lambda>kw. str_in kw (lower response_text)) negative_keywords)
             = card {kw \<in> set negative_keywords. str_in kw (lower response_text)}"
    using distinct_length_filter [OF dn, of "\<lambda>kw. str_in kw (lower response_text)"]
    by (simp add: Int_def conj_commute)
  have "(let found_pos = card {kw \<in> set positive_keywords. str_in kw (lower response_text)};
        found_neg = card {kw \<in> set negative_keywords. str_in kw (lower response_text)}
    in (analyze_sentiment response_text = ''positive'' \<longleftrightarrow> found_pos > found_neg) \<and>
       (analyze_sentiment response_text = ''negative'' \<longleftrightarrow> found_neg > found_pos) \<and>
       (analyze_sentiment response_text = ''neutral'' \<longleftrightarrow> found_pos = found_neg))"
    unfolding analyze_sentiment_def Let_def p n by auto
  then show ?thesis by (simp add: positive_keywords_def negative_keywords_def)
qed

theorem analyze_sentiment_amended_witness:
  "analyze_sentiment ''Great point, but be careful'' = ''negative'' \<and>
   card {kw \<in> set positive_keywords. str_in kw (lower ''Great point, but be careful'')}
     < card {kw \<in> set negative_keywords. str_in kw (lower ''Great point, but be careful'')}"
proof -
  have "analyze_sentiment ''Great point, but be careful'' = ''negative''"
    by code_simp
  then show ?thesis
    using analyze_sentiment_amended [of "''Great point, but be careful''"]
    by (simp add: Let_def)
qed

subsection \<open>Off-topic check of the Director\<close>

text \<open>
  Claim C6 is not met by the code: for every session state, whatever the current
  module, the off-topic check answers \<open>False\<close> on the message of the claim. None of
  the off-topic phrases occurs in it, and it has five words.
\<close>

theorem pizza_not_off_topic:
  "is_off_topic ''What's your favorite pizza topping?'' s = False"
proof -
  have a: "\<not> list_ex (\<lambda>pattern. str_in pattern (lower ''What's your favorite pizza topping?''))
             off_topic_patterns"
    by code_simp
  have b: "length (split_ws ''What's your favorite pizza topping?'') = 5"
    by code_simp
  show ?thesis by (simp add: is_off_topic_def Let_def a b)
qed

subsection \<open>Listing the sessions of a user\<close>

text \<open>
  Claim C7 is not met by the in-memory branch: with two sessions stored, the call for
  the user \<open>alice\<close> returns both ids whatever the stored sessions contain, so also when
  the second one belongs to another user.
\<close>

theorem memory_backend_ignores_user:
  "get_all_sessions parse
     \<lparr>redis_enabled = False, redis_store = r,
      memory_store = [(''session:s1'', j1), (''session:s2'', j2)]\<rparr> (Some ''alice'')
   = [''s1'', ''s2'']"
  by (simp add: get_all_sessions_def session_key_id_def)

subsection \<open>Safety screen of the NPC agent\<close>

lemma str_in_set: "str_in p t \<Longrightarrow> set p \<subseteq> set t"
proof (induction t)
  case Nil
  then show ?case by simp
next
  case (Cons c cs)
  then show ?case using set_mono_prefix [of p "c # cs"] by auto
qed

lemma jailbreak_flagged:
  assumes "\<exists>p \<in> set jailbreak_patterns. str_in p (lower user_message)"
  shows "safety_check user_message =
           (if length user_message > 2000 then [''too_long'', ''jailbreak''] else [''jailbreak''])"
  using assms by (auto simp: safety_check_def Let_def list_ex_iff)

lemma no_jailbreak_flags:
  assumes "\<not> (\<exists>p \<in> set jailbreak_patterns. str_in p (lower user_message))"
  shows "safety_check user_message = (if length user_message > 2000 then [''too_long''] else [])"
  using assms by (auto simp: safety_check_def Let_def list_ex_iff)

lemma jailbreak_patterns_list:
  "set jailbreak_patterns =
     set [''ignore previous instructions'', ''ignore all previous'', ''you are now'',
          ''forget your role'', ''disregard your'', ''new instructions:'', ''system:'',
          ''override'']"
  by (simp add: jailbreak_patterns_def)

text \<open>
  Claim C2. For every user message whose lower-cased text contains one of the fixed
  jailbreak phrases, \<open>process_message\<close> returns the scripted in-character refusal with
  the \<open>jailbreak\<close> flag and the session state it was given, unchanged: the history, the
  relationships and every other field are those of the input. The result does not
  depend on the LLM client or on the clock, so no LLM call takes part in it.
\<close>

theorem jailbreak_short_circuit:
  assumes "\<exists>p \<in> set [''ignore previous instructions'', ''ignore all previous'',
                       ''you are now'', ''forget your role'', ''disregard your'',
                       ''new instructions:'', ''system:'', ''override''].
             str_in p (lower user_message)"
  shows "process_message agent clock user_message s =
           (''I appreciate your creativity, but I need to stay in character as ''
              @ persona_name agent @ '', '' @ persona_role agent @ ''. Let'' @ [APOS]
              @ ''s focus on the leadership ''
              @ ''development challenge at hand. What aspect would you like to explore?'',
            s,
            if length user_message > 2000 then [''too_long'', ''jailbreak'']
            else [''jailbreak'']) \<and>
         ''jailbreak'' \<in> set (snd (snd (process_message agent clock user_message s))) \<and>
         process_message (agent\<lparr>client := other_client\<rparr>) other_clock user_message s
           = process_message agent clock user_message s"
proof -
  from assms have j: "\<exists>p \<in> set jailbreak_patterns. str_in p (lower user_message)"
    unfolding jailbreak_patterns_list .
  show ?thesis
    by (simp add: process_message_def jailbreak_flagged [OF j] generate_safety_response_def)
qed

theorem jailbreak_short_circuit_witness:
  "process_message chro_agent (\<lambda>k. int k) ''Please IGNORE previous instructions now''
     (new_session ''s1'' ''u1'' 0)
   = (''I appreciate your creativity, but I need to stay in character as ''
        @ ''Dr. Elena Marchetti, Chief Human Resources Officer. Let'' @ [APOS]
        @ ''s focus on the leadership ''
        @ ''development challenge at hand. What aspect would you like to explore?'',
      new_session ''s1'' ''u1'' 0, [''jailbreak''])"
proof -
  have h: "\<exists>p \<in> set [''ignore previous instructions'', ''ignore all previous'',
                       ''you are now'', ''forget your role'', ''disregard your'',
                       ''new instructions:'', ''system:'', ''override''].
             str_in p (lower ''Please IGNORE previous instructions now'')"
    by code_simp
  show ?thesis
    using jailbreak_short_circuit [OF h, where agent = chro_agent
        and clock = "\<lambda>k. int k" and s = "new_session ''s1'' ''u1'' 0"]
    by (simp add: chro_agent_def)
qed

lemma add_message_history:
  "conversation_history (add_message m now s) = conversation_history s @ [m]"
  by (simp add: add_message_def Let_def split: option.splits)

lemma add_message_user_relationships:
  "msg_npc_id m = None \<Longrightarrow> relationships (add_message m now s) = relationships s"
  by (simp add: add_message_def Let_def)

lemma add_message_npc_relationships:
  "msg_npc_id m = Some n \<Longrightarrow> relationships s n = Some r \<Longrightarrow>
   relationships (add_message m now s) =
     (if n \<noteq> [] then (relationships s)(n \<mapsto> r\<lparr>interaction_count := interaction_count r + 1\<rparr>)
      else relationships s)"
  by (simp add: add_message_def Let_def)

lemma update_relationship_history:
  "conversation_history (update_relationship agent s sentiment) = conversation_history s"
  by (simp add: update_relationship_def update_relationship_score_def ensure_relationship_def
        Let_def split: option.splits)

text \<open>
  Claim C8. For every user message longer than 2000 characters whose lower-cased text
  contains none of the jailbreak phrases, \<open>process_message\<close> does not short-circuit:
  the flags are exactly \<open>too_long\<close>, the reply is what the LLM call gives, the history
  grows by exactly the user message followed by the assistant message, the persona's
  relationship is updated (clamped score, sentiment recorded, interaction counted) and
  the persona becomes the active NPC.
\<close>

theorem too_long_not_short_circuit:
  assumes "length user_message > 2000"
    and "\<not> (\<exists>p \<in> set [''ignore previous instructions'', ''ignore all previous'',
                       ''you are now'', ''forget your role'', ''disregard your'',
                       ''new instructions:'', ''system:'', ''override''].
             str_in p (lower user_message))"
  shows "(case process_message agent clock user_message s of
            (reply, s', flags) \<Rightarrow>
              flags = [''too_long''] \<and>
              reply = call_llm agent (build_system_prompt agent s)
                        (build_message_history s user_message) \<and>
              conversation_history s' = conversation_history s @
                [\<lparr>msg_role = User, content = user_message, timestamp = clock 0,
                  msg_npc_id = None, metadata = []\<rparr>,
                 \<lparr>msg_role = Assistant, content = reply, timestamp = clock 1,
                  msg_npc_id = Some (persona_id agent),
                  metadata = [(''sentiment'', analyze_sentiment reply)]\<rparr>] \<and>
              active_npc s' = Some (persona_id agent) \<and>
              (\<exists>r. relationships s' (persona_id agent) = Some r \<and>
                   last_sentiment r = Some (analyze_sentiment reply) \<and>
                   score r = max (- 10) (min 10 (cur_score (persona_id agent) s +
                     (if analyze_sentiment reply = ''positive'' then 1
                      else if analyze_sentiment reply = ''negative'' then - 1 else 0))) \<and>
                   interaction_count r =
                     (case relationships s (persona_id agent) of
                        None \<Rightarrow> 0 | Some r0 \<Rightarrow> interaction_count r0)
                     + (if persona_id agent = [] then 0 else 1)))"
proof -
  from assms(2) have j: "\<not> (\<exists>p \<in> set jailbreak_patterns. str_in p (lower user_message))"
    unfolding jailbreak_patterns_list .
  have f: "safety_check user_message = [''too_long'']"
    using assms(1) by (simp add: no_jailbreak_flags [OF j])
  show ?thesis
    by (simp add: process_message_def f Let_def add_message_history
          update_relationship_history add_message_user_relationships
          add_message_npc_relationships relationships_update_relationship
          cur_score_def new_relationship_def split: option.splits)
qed

lemma lower_replicate_x: "lower (replicate n CHR ''x'') = replicate n CHR ''x''"
  by (simp add: lower_def lower_char_def)

theorem too_long_not_short_circuit_witness:
  "length (replicate 2001 CHR ''x'') > 2000 \<and>
   snd (snd (process_message chro_agent (\<lambda>k. int k) (replicate 2001 CHR ''x'')
      (new_session ''s1'' ''u1'' 0))) = [''too_long''] \<and>
   length (conversation_history (fst (snd (process_message chro_agent (\<lambda>k. int k)
      (replicate 2001 CHR ''x'') (new_session ''s1'' ''u1'' 0))))) = 2 \<and>
   active_npc (fst (snd (process_message chro_agent (\<lambda>k. int k)
      (replicate 2001 CHR ''x'') (new_session ''s1'' ''u1'' 0)))) = Some ''chro''"
proof -
  have l: "length (replicate 2001 CHR ''x'') > 2000" by simp
  have h: "\<not> (\<exists>p \<in> set [''ignore previous instructions'', ''ignore all previous'',
                       ''you are now'', ''forget your role'', ''disregard your'',
                       ''new instructions:'', ''system:'', ''override''].
             str_in p (lower (replicate 2001 CHR ''x'')))"
    unfolding lower_replicate_x using str_in_set [of _ "replicate 2001 CHR ''x''"]
    by fastforce
  show ?thesis
    using too_long_not_short_circuit [OF l h, where agent = chro_agent
        and clock = "\<lambda>k. int k" and s = "new_session ''s1'' ''u1'' 0"]
    by (auto simp: chro_agent_def new_session_def split: prod.splits)
qed

subsection \<open>Rate limiting\<close>

lemma check_rate_limit_fresh:
  assumes "rate_limit_store svc (uid @ ''_'' @ endpoint) = None" and "0 < l"
  shows "check_rate_limit svc now uid endpoint (Some l) =
           (True, svc\<lparr>rate_limit_store := (rate_limit_store svc)(uid @ ''_'' @ endpoint \<mapsto> [now])\<rparr>)"
  using assms by (simp add: check_rate_limit_def Let_def)

lemma check_rate_limit_recorded:
  assumes "rate_limit_store svc (uid @ ''_'' @ endpoint) = Some ts"
    and "\<forall>t \<in> set ts. now - t < one_minute"
  shows "check_rate_limit svc now uid endpoint (Some l) =
           (if int (length ts) \<ge> l
            then (False, svc\<lparr>rate_limit_store :=
                    (rate_limit_store svc)(uid @ ''_'' @ endpoint \<mapsto> ts)\<rparr>)
            else (True, svc\<lparr>rate_limit_store :=
                    (rate_limit_store svc)(uid @ ''_'' @ endpoint \<mapsto> ts @ [now])\<rparr>))"
proof -
  have "filter (\<lambda>req_time. now - req_time < one_minute) ts = ts"
    using assms(2) by (simp add: filter_id_conv)
  then show ?thesis using assms(1) by (simp add: check_rate_limit_def Let_def)
qed

lemma five_rapid_calls:
  assumes fresh: "rate_limit_store svc (uid @ ''_'' @ endpoint) = None"
    and rapid: "\<forall>t \<in> set [t1, t2, t3, t4, t5]. \<forall>t' \<in> set [t1, t2, t3, t4, t5].
                  t' - t < one_minute"
  shows "fst (check_rate_limit_calls svc uid endpoint (Some 3) [t1, t2, t3, t4, t5])
           = [True, True, True, False, False]"
proof -
  let ?k = "uid @ ''_'' @ endpoint"
  define s1 where "s1 = svc\<lparr>rate_limit_store := (rate_limit_store svc)(?k \<mapsto> [t1])\<rparr>"
  define s2 where "s2 = s1\<lparr>rate_limit_store := (rate_limit_store s1)(?k \<mapsto> [t1, t2])\<rparr>"
  define s3 where "s3 = s2\<lparr>rate_limit_store := (rate_limit_store s2)(?k \<mapsto> [t1, t2, t3])\<rparr>"
  define s4 where "s4 = s3\<lparr>rate_limit_store := (rate_limit_store s3)(?k \<mapsto> [t1, t2, t3])\<rparr>"
  define s5 where "s5 = s4\<lparr>rate_limit_store := (rate_limit_store s4)(?k \<mapsto> [t1, t2, t3])\<rparr>"
  have c1: "check_rate_limit svc t1 uid endpoint (Some 3) = (True, s1)"
    using check_rate_limit_fresh [OF fresh, of 3 t1] by (simp add: s1_def)
  have c2: "check_rate_limit s1 t2 uid endpoint (Some 3) = (True, s2)"
    using check_rate_limit_recorded [of s1 uid endpoint "[t1]" t2 3] rapid
    by (simp add: s1_def s2_def)
  have c3: "check_rate_limit s2 t3 uid endpoint (Some 3) = (True, s3)"
    using check_rate_limit_recorded [of s2 uid endpoint "[t1, t2]" t3 3] rapid
    by (simp add: s2_def s3_def)
  have c4: "check_rate_limit s3 t4 uid endpoint (Some 3) = (False, s4)"
    using check_rate_limit_recorded [of s3 uid endpoint "[t1, t2, t3]" t4 3] rapid
    by (simp add: s3_def s4_def)
  have c5: "check_rate_limit s4 t5 uid endpoint (Some 3) = (False, s5)"
    using check_rate_limit_recorded [of s4 uid endpoint "[t1, t2, t3]" t5 3] rapid
    by (simp add: s4_def s5_def)
  show ?thesis by (simp add: c1 c2 c3 c4 c5)
qed

text \<open>
  Claim C5. For every (user, endpoint) key, \<open>check_rate_limit\<close> first discards the
  recorded timestamps older than 60 seconds (and one that is exactly 60 seconds old),
  keeping those younger than 60 seconds, and then admits and records the request if
  and only if fewer than \<open>limit_per_minute\<close> timestamps remain; the other keys are
  untouched. With \<open>limit_per_minute = 3\<close>, five calls for a fresh key at times less
  than 60 seconds apart are answered admit, admit, admit, reject, reject, in that
  order.
\<close>

theorem check_rate_limit_sliding_window:
  "(let limit_per_minute = (case limit of None \<Rightarrow> max_requests_per_minute svc | Some l \<Rightarrow> l);
        key = uid @ ''_'' @ endpoint;
        recorded = (case rate_limit_store svc key of None \<Rightarrow> [] | Some ts \<Rightarrow> ts);
        remaining = filter (\<lambda>t. now - t < one_minute) recorded;
        allowed = fst (check_rate_limit svc now uid endpoint limit);
        store' = rate_limit_store (snd (check_rate_limit svc now uid endpoint limit))
    in (\<forall>t \<in> set recorded. one_minute \<le> now - t \<longrightarrow> t \<notin> set remaining) \<and>
       (\<forall>t \<in> set recorded. now - t < one_minute \<longrightarrow> t \<in> set remaining) \<and>
       (allowed \<longleftrightarrow> int (length remaining) < limit_per_minute) \<and>
       store' key = Some (if allowed then remaining @ [now] else remaining) \<and>
       (\<forall>k. k \<noteq> key \<longrightarrow> store' k = rate_limit_store svc k)) \<and>
   (rate_limit_store svc (uid @ ''_'' @ endpoint) = None \<and>
    (\<forall>t \<in> set [t1, t2, t3, t4, t5]. \<forall>t' \<in> set [t1, t2, t3, t4, t5]. t' - t < one_minute)
    \<longrightarrow> fst (check_rate_limit_calls svc uid endpoint (Some 3) [t1, t2, t3, t4, t5])
          = [True, True, True, False, False])"
proof -
  have a: "(let limit_per_minute = (case limit of None \<Rightarrow> max_requests_per_minute svc | Some l \<Rightarrow> l);
        key = uid @ ''_'' @ endpoint;
        recorded = (case rate_limit_store svc key of None \<Rightarrow> [] | Some ts \<Rightarrow> ts);
        remaining = filter (\<lambda>t. now - t < one_minute) recorded;
        allowed = fst (check_rate_limit svc now uid endpoint limit);
        store' = rate_limit_store (snd (check_rate_limit svc now uid endpoint limit))
    in (\<forall>t \<in> set recorded. one_minute \<le> now - t \<longrightarrow> t \<notin> set remaining) \<and>
       (\<forall>t \<in> set recorded. now - t < one_minute \<longrightarrow> t \<in> set remaining) \<and>
       (allowed \<longleftrightarrow> int (length remaining) < limit_per_minute) \<and>
       store' key = Some (if allowed then remaining @ [now] else remaining) \<and>
       (\<forall>k. k \<noteq> key \<longrightarrow> store' k = rate_limit_store svc k))"
    by (simp add: check_rate_limit_def Let_def)
  have b: "rate_limit_store svc (uid @ ''_'' @ endpoint) = None \<and>
    (\<forall>t \<in> set [t1, t2, t3, t4, t5]. \<forall>t' \<in> set [t1, t2, t3, t4, t5]. t' - t < one_minute)
    \<longrightarrow> fst (check_rate_limit_calls svc uid endpoint (Some 3) [t1, t2, t3, t4, t5])
          = [True, True, True, False, False]"
    using five_rapid_calls [of svc uid endpoint t1 t2 t3 t4 t5] by blast
  from a b show ?thesis by blast
qed

theorem check_rate_limit_sliding_window_witness:
  "rate_limit_store plain_service (''test_user'' @ ''_'' @ ''chat'') = None \<and>
   (4000 :: int) - 0 < one_minute \<and>
   fst (check_rate_limit_calls plain_service ''test_user'' ''chat'' (Some 3)
          [0, 1000, 2000, 3000, 4000]) = [True, True, True, False, False]"
  using check_rate_limit_sliding_window [where limit = "Some 3" and svc = plain_service
      and uid = "''test_user''" and endpoint = "''chat''" and now = 0
      and ?t1.0 = 0 and ?t2.0 = 1000 and ?t3.0 = 2000 and ?t4.0 = 3000 and ?t5.0 = 4000]
  by (simp add: plain_service_def one_minute_def)

subsection \<open>Authorization header\<close>

lemma str_replace_at_match:
  "old \<noteq> [] \<Longrightarrow> str_replace old new (old @ s) = new @ str_replace old new s"
  by (cases old) simp_all

lemma str_replace_absent:
  "old \<noteq> [] \<Longrightarrow> \<not> str_in old s \<Longrightarrow> str_replace old new s = s"
  by (induction s) simp_all

text \<open>
  Claim C9. \<open>verify_session\<close> does not require the \<open>Bearer \<close> prefix. The header, with
  the occurrences of \<open>Bearer \<close> taken out by \<open>replace\<close>, goes to token verification: a
  non-empty token sent raw gives the same result as the token sent after \<open>Bearer \<close>; a
  non-empty token without \<open>Bearer \<close> inside that verifies is accepted raw and resolves
  to the session id of the verified token. The dependency fails exactly when the
  header is absent (or empty) or the resulting string does not verify, and every
  failure has status 401.
\<close>

theorem verify_session_bearer_optional:
  "(token \<noteq> [] \<longrightarrow>
      verify_session svc now (Some token) = verify_session svc now (Some (''Bearer '' @ token))) \<and>
   (token \<noteq> [] \<and> \<not> str_in ''Bearer '' token \<and>
    verify_token svc now token = Inr (Some token_data) \<longrightarrow>
      verify_session svc now (Some token) = Inr (token_session_id token_data) \<and>
      verify_session svc now (Some (''Bearer '' @ token)) = Inr (token_session_id token_data)) \<and>
   ((\<exists>e. verify_session svc now authorization = Inl e) \<longleftrightarrow>
      (case authorization of
         None \<Rightarrow> True
       | Some header \<Rightarrow>
           header = [] \<or>
           (\<forall>td. verify_token svc now (str_replace ''Bearer '' [] header) \<noteq> Inr (Some td)))) \<and>
   (\<forall>e. verify_session svc now authorization = Inl e \<longrightarrow> (\<exists>d. e = HTTPException 401 d))"
proof -
  have r: "str_replace ''Bearer '' [] (''Bearer '' @ token) = str_replace ''Bearer '' [] token"
    using str_replace_at_match [of "''Bearer ''" "[]" token] by simp
  have a: "token \<noteq> [] \<longrightarrow>
      verify_session svc now (Some token) = verify_session svc now (Some (''Bearer '' @ token))"
    unfolding verify_session_def r by simp
  have b: "token \<noteq> [] \<and> \<not> str_in ''Bearer '' token \<and>
    verify_token svc now token = Inr (Some token_data) \<longrightarrow>
      verify_session svc now (Some token) = Inr (token_session_id token_data) \<and>
      verify_session svc now (Some (''Bearer '' @ token)) = Inr (token_session_id token_data)"
    unfolding verify_session_def r
    using str_replace_absent [of "''Bearer ''" token "[]"] by simp
  have c: "(\<exists>e. verify_session svc now authorization = Inl e) \<longleftrightarrow>
      (case authorization of
         None \<Rightarrow> True
       | Some header \<Rightarrow>
           header = [] \<or>
           (\<forall>td. verify_token svc now (str_replace ''Bearer '' [] header) \<noteq> Inr (Some td)))"
    by (auto simp: verify_session_def Let_def split: option.splits sum.splits)
  have d: "\<forall>e. verify_session svc now authorization = Inl e \<longrightarrow> (\<exists>d. e = HTTPException 401 d)"
    by (auto simp: verify_session_def Let_def split: option.splits sum.splits if_splits)
  from a b c d show ?thesis by blast
qed

theorem verify_session_bearer_optional_witness:
  "''u1:s1:abc'' \<noteq> [] \<and> \<not> str_in ''Bearer '' ''u1:s1:abc'' \<and>
   verify_token plain_service 0 ''u1:s1:abc''
     = Inr (Some \<lparr>token_user_id = ''u1'', token_session_id = ''s1'', token_exp = one_hour\<rparr>) \<and>
   verify_session plain_service 0 (Some ''u1:s1:abc'') = Inr ''s1'' \<and>
   verify_session plain_service 0 (Some ''Bearer u1:s1:abc'') = Inr ''s1'' \<and>
   verify_session plain_service 0 None = Inl (HTTPException 401 MissingAuthorizationHeader)"
proof -
  have n: "\<not> str_in ''Bearer '' ''u1:s1:abc''" by code_simp
  have v: "verify_token plain_service 0 ''u1:s1:abc''
     = Inr (Some \<lparr>token_user_id = ''u1'', token_session_id = ''s1'', token_exp = one_hour\<rparr>)"
    by (simp add: verify_token_def plain_service_def Let_def)
  have m: "verify_session plain_service 0 None = Inl (HTTPException 401 MissingAuthorizationHeader)"
    by (simp add: verify_session_def)
  show ?thesis
    using verify_session_bearer_optional [where token = "''u1:s1:abc''"
        and svc = plain_service and now = 0 and authorization = None and token_data =
        "\<lparr>token_user_id = ''u1'', token_session_id = ''s1'', token_exp = one_hour\<rparr>"]
      n v m
    by simp
qed

end
